theory Spec2Isabelle
  imports Main "HOL-Library.Word" "HOL-Library.Sublist"
begin

unbundle bit_operations_syntax

section \<open>The terminal interface the program is compiled against\<close>

text \<open>
  \<^verbatim>\<open>kilo.c\<close> includes \<^verbatim>\<open><termios.h>\<close>, \<^verbatim>\<open><errno.h>\<close> and \<^verbatim>\<open><ctype.h>\<close>; none of them
  belongs to the repository. The flag fields are unsigned 32-bit integers, a control
  character is an unsigned byte, and \<^verbatim>\<open>struct termios\<close> has the fields of the C library.
\<close>

type_synonym tcflag_t = "32 word"
type_synonym cc_t = "8 word"
type_synonym speed_t = "32 word"

record termios =
  c_iflag :: tcflag_t
  c_oflag :: tcflag_t
  c_cflag :: tcflag_t
  c_lflag :: tcflag_t
  c_line :: cc_t
  c_cc :: "cc_t list"
  c_ispeed :: speed_t
  c_ospeed :: speed_t

text \<open>
  The macros of the headers that the program uses. Their values differ between
  platforms, so every function of the model takes them as a parameter \<open>K\<close>.
  \<open>char_signed\<close> says whether plain \<^verbatim>\<open>char\<close> is a signed type (it is on x86).
\<close>

record platform =
  BRKINT :: tcflag_t
  ICRNL :: tcflag_t
  INPCK :: tcflag_t
  ISTRIP :: tcflag_t
  IXON :: tcflag_t
  OPOST :: tcflag_t
  CS8 :: tcflag_t
  ECHO :: tcflag_t
  ICANON :: tcflag_t
  IEXTEN :: tcflag_t
  ISIG :: tcflag_t
  VMIN :: nat
  VTIME :: nat
  NCCS :: nat
  EAGAIN :: int
  char_signed :: bool

text \<open>The values of Linux on x86-64 (asm-generic/termbits.h, errno.h), used in the examples.\<close>

definition linux :: platform where
  "linux = \<lparr> BRKINT = 0x2, ICRNL = 0x100, INPCK = 0x10, ISTRIP = 0x20, IXON = 0x400,
     OPOST = 0x1, CS8 = 0x30, ECHO = 0x8, ICANON = 0x2, IEXTEN = 0x8000, ISIG = 0x1,
     VMIN = 6, VTIME = 5, NCCS = 32, EAGAIN = 11, char_signed = True \<rparr>"

text \<open>\<^verbatim>\<open>EINTR\<close> on Linux: the errno of a read interrupted by a signal. The program never names it.\<close>

definition EINTR_linux :: int where
  "EINTR_linux = 4"

text \<open>
  A terminal as a login shell leaves it on Linux (\<^verbatim>\<open>stty sane\<close>, 38400 baud, 8 bits):
  ICRNL, IXON and IUTF8; OPOST and ONLCR; CS8 and CREAD; ISIG, ICANON, ECHO, IEXTEN and more.
\<close>

definition cooked :: termios where
  "cooked = \<lparr> c_iflag = 0x4500, c_oflag = 0x5, c_cflag = 0xBF, c_lflag = 0x8A3B, c_line = 0,
     c_cc = [3, 28, 127, 21, 4, 0, 1, 0, 17, 19, 26, 0, 18, 15, 23, 22,
             0, 0, 0, 0, 0, 0, 0, 0, 0, 0, 0, 0, 0, 0, 0, 0],
     c_ispeed = 0xF, c_ospeed = 0xF \<rparr>"

text \<open>The same line set to 7 data bits with parity (CS7, CREAD, PARENB), as a serial console may be.\<close>

definition cooked7 :: termios where
  "cooked7 = cooked \<lparr> c_cflag := 0x1AF \<rparr>"

section \<open>The process and its environment\<close>

text \<open>
  What one call of \<^verbatim>\<open>read(STDIN_FILENO, &c, 1)\<close> does: it delivers one byte (returns 1),
  times out with nothing (returns 0), or fails (returns -1 and sets errno).
\<close>

datatype read_ev = Got char | Nothing | Failed int

text \<open>The only function the program ever registers with \<^verbatim>\<open>atexit\<close>.\<close>

datatype handler = H_disableRawMode

text \<open>The moments of a run that the lifecycle claims speak about.\<close>

datatype event = Snapshot_stored | EnableRawMode_returned | DisableRawMode_called

datatype ctl = Normal | Break | Exit int

text \<open>
  \<open>tty\<close> is the configuration of the device behind standard input, \<open>faults\<close> the outcome
  of each coming \<^verbatim>\<open>tcgetattr\<close>/\<^verbatim>\<open>tcsetattr\<close> call in order (\<open>None\<close>: it succeeds,
  \<open>Some e\<close>: it fails with errno \<open>e\<close>; past the end of the list every call succeeds).
  \<open>orig_termios\<close> is the global variable of the program, \<open>handlers\<close> the functions
  registered with \<^verbatim>\<open>atexit\<close>, latest first. \<open>stderr\<close> holds what \<^verbatim>\<open>perror\<close> was given:
  its argument and the errno it describes.
\<close>

record world =
  tty :: termios
  faults :: "int option list"
  orig_termios :: termios
  errno :: int
  handlers :: "handler list"
  stdout :: string
  stderr :: "(string \<times> int) list"
  trace :: "event list"

text \<open>A static \<^verbatim>\<open>struct termios\<close> starts as all zeros.\<close>

definition zero_termios :: "platform \<Rightarrow> termios" where
  "zero_termios K = \<lparr> c_iflag = 0, c_oflag = 0, c_cflag = 0, c_lflag = 0, c_line = 0,
     c_cc = replicate (NCCS K) 0, c_ispeed = 0, c_ospeed = 0 \<rparr>"

definition start :: "platform \<Rightarrow> termios \<Rightarrow> int option list \<Rightarrow> world" where
  "start K t fs = \<lparr> tty = t, faults = fs, orig_termios = zero_termios K, errno = 0,
     handlers = [], stdout = [], stderr = [], trace = [] \<rparr>"

definition tcgetattr :: "world \<Rightarrow> termios option \<times> world" where
  "tcgetattr w =
     (case faults w of
        [] \<Rightarrow> (Some (tty w), w)
      | None # fs \<Rightarrow> (Some (tty w), w\<lparr>faults := fs\<rparr>)
      | Some e # fs \<Rightarrow> (None, w\<lparr>faults := fs, errno := e\<rparr>))"

definition tcsetattr :: "termios \<Rightarrow> world \<Rightarrow> bool \<times> world" where
  "tcsetattr t w =
     (case faults w of
        [] \<Rightarrow> (True, w\<lparr>tty := t\<rparr>)
      | None # fs \<Rightarrow> (True, w\<lparr>tty := t, faults := fs\<rparr>)
      | Some e # fs \<Rightarrow> (False, w\<lparr>faults := fs, errno := e\<rparr>))"

text \<open>\<^verbatim>\<open>atexit\<close> can report failure; the program ignores its result, and so does the model.\<close>

definition atexit :: "handler \<Rightarrow> world \<Rightarrow> world" where
  "atexit h w = w\<lparr>handlers := h # handlers w\<rparr>"

definition read1 :: "read_ev \<Rightarrow> char \<Rightarrow> world \<Rightarrow> int \<times> char \<times> world" where
  "read1 r c w =
     (case r of
        Got b \<Rightarrow> (1, b, w)
      | Nothing \<Rightarrow> (0, c, w)
      | Failed e \<Rightarrow> (- 1, c, w\<lparr>errno := e\<rparr>))"

text \<open>
  \<^verbatim>\<open>iscntrl\<close> in the C locale (the program never sets another): 0 to 31, and 127.
  A byte from 128 up is no control character, also where \<^verbatim>\<open>char\<close> is signed and
  the argument is negative: the table of the C library answers 0 there.
\<close>

definition iscntrl :: "char \<Rightarrow> bool" where
  "iscntrl c = ((of_char c :: nat) < 32 \<or> (of_char c :: nat) = 127)"

text \<open>A \<^verbatim>\<open>char\<close> passed to \<^verbatim>\<open>printf\<close> is promoted to \<^verbatim>\<open>int\<close>.\<close>

definition char_int :: "platform \<Rightarrow> char \<Rightarrow> int" where
  "char_int K c =
     (if char_signed K \<and> (128 :: nat) \<le> of_char c then int (of_char c) - 256
      else int (of_char c))"

definition digit :: "nat \<Rightarrow> char" where
  "digit d = ''0123456789'' ! d"

function dec_nat :: "nat \<Rightarrow> string" where
  "dec_nat n = (if n < 10 then [digit n] else dec_nat (n div 10) @ [digit (n mod 10)])"
  by pat_completeness auto
termination
  by (relation "measure (\<lambda>n. n)") auto

declare dec_nat.simps [simp del]

text \<open>The conversion \<^verbatim>\<open>%d\<close> of \<^verbatim>\<open>printf\<close>.\<close>

definition printf_d :: "int \<Rightarrow> string" where
  "printf_d i = (if i < 0 then CHR ''-'' # dec_nat (nat (- i)) else dec_nat (nat i))"

definition CRLF :: string where
  "CRLF = [CHR 0x0D, CHR 0x0A]"

section \<open>kilo.c\<close>

text \<open>
  \<^verbatim>\<open>die\<close> calls \<^verbatim>\<open>perror(s)\<close> and \<^verbatim>\<open>exit(1)\<close>. It never returns to its caller: the model
  hands \<open>Exit 1\<close> up to the place that runs the exit handlers.
\<close>

definition die :: "string \<Rightarrow> world \<Rightarrow> ctl \<times> world" where
  "die s w = (Exit 1, w\<lparr>stderr := stderr w @ [(s, errno w)]\<rparr>)"

definition disableRawMode :: "world \<Rightarrow> ctl \<times> world" where
  "disableRawMode w =
     (let w0 = w\<lparr>trace := trace w @ [DisableRawMode_called]\<rparr>;
          (ok, w1) = tcsetattr (orig_termios w0) w0
      in if \<not> ok then die ''tcsetattr'' w1 else (Normal, w1))"

text \<open>Lines 70 to 107 of \<^verbatim>\<open>enableRawMode\<close>: the copy of the snapshot and its changes.\<close>

definition raw_termios :: "platform \<Rightarrow> termios \<Rightarrow> termios" where
  "raw_termios K orig =
     (let raw = orig;
          raw = raw\<lparr>c_iflag := c_iflag raw AND NOT (BRKINT K OR ICRNL K OR INPCK K OR ISTRIP K OR IXON K)\<rparr>;
          raw = raw\<lparr>c_iflag := c_iflag raw AND NOT (OPOST K)\<rparr>;
          raw = raw\<lparr>c_iflag := c_iflag raw OR CS8 K\<rparr>;
          raw = raw\<lparr>c_lflag := c_lflag raw AND NOT (ECHO K OR ICANON K OR IEXTEN K OR ISIG K)\<rparr>;
          raw = raw\<lparr>c_cc := (c_cc raw)[VMIN K := 0]\<rparr>;
          raw = raw\<lparr>c_cc := (c_cc raw)[VTIME K := 1]\<rparr>
      in raw)"

definition enableRawMode :: "platform \<Rightarrow> world \<Rightarrow> ctl \<times> world" where
  "enableRawMode K w =
     (case tcgetattr w of
        (None, w1) \<Rightarrow> die ''tcgetattr'' w1
      | (Some t, w1) \<Rightarrow>
          (let w2 = w1\<lparr>orig_termios := t, trace := trace w1 @ [Snapshot_stored]\<rparr>;
               w3 = atexit H_disableRawMode w2;
               (ok, w4) = tcsetattr (raw_termios K (orig_termios w3)) w3
           in if \<not> ok then die ''tcsetattr'' w4
              else (Normal, w4\<lparr>trace := trace w4 @ [EnableRawMode_returned]\<rparr>)))"

text \<open>The two \<^verbatim>\<open>printf\<close> calls of the loop body.\<close>

definition print_key :: "platform \<Rightarrow> char \<Rightarrow> string" where
  "print_key K c =
     (if iscntrl c then printf_d (char_int K c) @ CRLF
      else printf_d (char_int K c) @ [CHR 0x20, CHR 0x28, CHR 0x27] @ [c] @ [CHR 0x27, CHR 0x29] @ CRLF)"

text \<open>One pass through the body of \<^verbatim>\<open>while (1)\<close>, given what its \<^verbatim>\<open>read\<close> does.\<close>

definition iteration :: "platform \<Rightarrow> read_ev \<Rightarrow> world \<Rightarrow> ctl \<times> world" where
  "iteration K r w =
     (let c = CHR 0x00;
          (n, c, w1) = read1 r c w
      in if n = - 1 \<and> errno w1 \<noteq> EAGAIN K then die ''read'' w1
         else (let w2 = w1\<lparr>stdout := stdout w1 @ print_key K c\<rparr>
               in if c = CHR ''q'' then (Break, w2) else (Normal, w2)))"

text \<open>
  The loop over the coming reads. When they are used up the process is still in the
  loop, waiting: the result is \<open>None\<close>. Otherwise it is how the loop was left, with the
  reads that were never issued.
\<close>

fun loop :: "platform \<Rightarrow> read_ev list \<Rightarrow> world \<Rightarrow> ctl option \<times> read_ev list \<times> world" where
  "loop K [] w = (None, [], w)"
| "loop K (r # rs) w =
     (case iteration K r w of
        (Normal, w') \<Rightarrow> loop K rs w'
      | (x, w') \<Rightarrow> (Some x, rs, w'))"

definition call_handler :: "handler \<Rightarrow> world \<Rightarrow> ctl \<times> world" where
  "call_handler h w = (case h of H_disableRawMode \<Rightarrow> disableRawMode w)"

text \<open>
  \<^verbatim>\<open>exit\<close> calls the registered functions, latest first, each once. A handler that
  itself calls \<^verbatim>\<open>exit\<close> (through \<^verbatim>\<open>die\<close>) is undefined in ISO C; as in glibc, the handlers
  still waiting are run and the process ends with the later status.
\<close>

fun run_handlers :: "handler list \<Rightarrow> int \<Rightarrow> world \<Rightarrow> int \<times> world" where
  "run_handlers [] st w = (st, w)"
| "run_handlers (h # hs) st w =
     (case call_handler h (w\<lparr>handlers := hs\<rparr>) of
        (Exit st', w') \<Rightarrow> run_handlers hs st' w'
      | (_, w') \<Rightarrow> run_handlers hs st w')"

definition exit :: "int \<Rightarrow> world \<Rightarrow> int \<times> world" where
  "exit st w = run_handlers (handlers w) st w"

text \<open>
  \<^verbatim>\<open>main\<close>: the exit status if the process has ended (\<open>None\<close> while it waits in the
  loop), the reads left over, and the world at that point.
\<close>

definition main :: "platform \<Rightarrow> read_ev list \<Rightarrow> world \<Rightarrow> int option \<times> read_ev list \<times> world" where
  "main K inp w =
     (case enableRawMode K w of
        (Exit st, w1) \<Rightarrow> (let (st', w2) = exit st w1 in (Some st', inp, w2))
      | (_, w1) \<Rightarrow>
          (case loop K inp w1 of
             (None, rest, w2) \<Rightarrow> (None, rest, w2)
           | (Some (Exit st), rest, w2) \<Rightarrow> (let (st', w3) = exit st w2 in (Some st', rest, w3))
           | (Some _, rest, w2) \<Rightarrow> (let (st', w3) = exit 0 w2 in (Some st', rest, w3))))"

section \<open>What the claims speak about\<close>

text \<open>
  A sequence of entering raw mode and restoring: the calls are made one after the other,
  as long as each returns; a call that ends in \<open>die\<close> ends the sequence.
\<close>

datatype mode_op = Enter | Restore

definition run_op :: "platform \<Rightarrow> mode_op \<Rightarrow> world \<Rightarrow> ctl \<times> world" where
  "run_op K p w = (case p of Enter \<Rightarrow> enableRawMode K w | Restore \<Rightarrow> disableRawMode w)"

fun run_ops :: "platform \<Rightarrow> mode_op list \<Rightarrow> world \<Rightarrow> ctl \<times> world" where
  "run_ops K [] w = (Normal, w)"
| "run_ops K (p # ps) w =
     (case run_op K p w of
        (Normal, w1) \<Rightarrow> run_ops K ps w1
      | (x, w1) \<Rightarrow> (x, w1))"

text \<open>\<open>no_reentry ps\<close>: raw mode is never entered twice with no restore in between.\<close>

fun no_reentry :: "mode_op list \<Rightarrow> bool" where
  "no_reentry (Enter # Enter # ps) = False"
| "no_reentry (p # q # ps) = no_reentry (q # ps)"
| "no_reentry ps = True"

text \<open>Restoring twice in a row; the second call happens if the first one returns.\<close>

definition restore_twice :: "world \<Rightarrow> ctl \<times> world" where
  "restore_twice w =
     (case disableRawMode w of
        (Normal, w1) \<Rightarrow> disableRawMode w1
      | (x, w1) \<Rightarrow> (x, w1))"

text \<open>\<open>fails fs n\<close>: the call number \<open>n\<close> (from 0) of \<^verbatim>\<open>tcgetattr\<close>/\<^verbatim>\<open>tcsetattr\<close> fails under the script \<open>fs\<close>.\<close>

definition fails :: "int option list \<Rightarrow> nat \<Rightarrow> bool" where
  "fails fs n = (n < length fs \<and> fs ! n \<noteq> None)"

text \<open>\<open>runs_before a b tr\<close>: in the trace \<open>tr\<close>, \<open>a\<close> happens when no \<open>b\<close> has happened yet.\<close>

definition runs_before :: "event \<Rightarrow> event \<Rightarrow> event list \<Rightarrow> bool" where
  "runs_before a b tr = (a \<in> set (takeWhile (\<lambda>x. x \<noteq> b) tr))"


section \<open>Evaluation lemmas\<close>

lemma dec_nat_small: "n < 10 \<Longrightarrow> dec_nat n = [digit n]"
  by (simp add: dec_nat.simps)

lemma dec_nat_step: "\<not> n < 10 \<Longrightarrow> dec_nat n = dec_nat (n div 10) @ [digit (n mod 10)]"
  by (subst dec_nat.simps) simp

lemmas eval_defs = main_def enableRawMode_def tcgetattr_def tcsetattr_def start_def atexit_def
  raw_termios_def iteration_def read1_def print_key_def iscntrl_def char_int_def printf_d_def
  dec_nat_small dec_nat_step digit_def CRLF_def exit_def call_handler_def disableRawMode_def
  die_def Let_def

lemma printf_d_0: "printf_d 0 = ''0''"
  by (simp add: printf_d_def dec_nat_small digit_def)

lemma print_key_NUL: "print_key K (CHR 0x00) = CHR ''0'' # CRLF"
  by (simp add: print_key_def iscntrl_def char_int_def printf_d_0)










section \<open>Entering raw mode\<close>

lemma raw_termios_frame:
  "c_oflag (raw_termios K t) = c_oflag t"
  "c_cflag (raw_termios K t) = c_cflag t"
  "c_line (raw_termios K t) = c_line t"
  "c_ispeed (raw_termios K t) = c_ispeed t"
  "c_ospeed (raw_termios K t) = c_ospeed t"
  "c_cc (raw_termios K t) = (c_cc t)[VMIN K := 0, VTIME K := 1]"
  by (simp_all add: raw_termios_def)

lemma enableRawMode_Normal:
  assumes "enableRawMode K w = (Normal, w')"
  shows "tty w' = raw_termios K (tty w)" and "orig_termios w' = tty w"
  using assms
  by (auto simp: enableRawMode_def tcgetattr_def tcsetattr_def atexit_def die_def Let_def
      split: list.splits option.splits)

text \<open>When no call fails, \<open>enableRawMode\<close> returns, from the first state of a process.\<close>

lemma enableRawMode_no_faults:
  "enableRawMode K (start K t []) =
     (Normal, (start K t [])\<lparr>tty := raw_termios K t, orig_termios := t,
        handlers := [H_disableRawMode], trace := [Snapshot_stored, EnableRawMode_returned]\<rparr>)"
  by (simp add: enableRawMode_def tcgetattr_def tcsetattr_def atexit_def start_def)

text \<open>
  C1. The claim: the configuration applied by \<open>enableRawMode\<close> has the OPOST bit of the
  output flags cleared. The code clears OPOST in \<open>c_iflag\<close> (line 95) and never touches
  \<open>c_oflag\<close>. What holds instead: whenever \<open>enableRawMode\<close> returns, the OPOST bit of the
  applied output flags is the bit of the snapshot, so a terminal that had output
  post-processing on keeps it on.
\<close>

theorem enableRawMode_keeps_OPOST:
  "enableRawMode K w = (Normal, w') \<Longrightarrow> c_oflag (tty w') AND OPOST K = c_oflag (tty w) AND OPOST K"
  by (simp add: enableRawMode_Normal raw_termios_frame)

text \<open>On Linux, from the usual terminal settings (output flags OPOST and ONLCR): OPOST stays set.\<close>

theorem enableRawMode_keeps_OPOST_witness:
  "enableRawMode linux (start linux cooked []) =
     (Normal, (start linux cooked [])\<lparr>tty := raw_termios linux cooked, orig_termios := cooked,
        handlers := [H_disableRawMode], trace := [Snapshot_stored, EnableRawMode_returned]\<rparr>)
   \<and> c_oflag (raw_termios linux cooked) AND OPOST linux = OPOST linux
   \<and> OPOST linux \<noteq> 0"
proof -
  note run = enableRawMode_no_faults [of linux cooked]
  from enableRawMode_keeps_OPOST [OF run]
  have "c_oflag (raw_termios linux cooked) AND OPOST linux = OPOST linux"
    by (simp add: start_def cooked_def linux_def)
  moreover have "OPOST linux \<noteq> 0"
    by (simp add: linux_def)
  ultimately show ?thesis
    using run by simp
qed

text \<open>
  C5. The claim: the applied configuration has the character size of the control flags
  set to 8 bits, whatever the snapshot had. The code sets the CS8 bits in \<open>c_iflag\<close>
  (line 96) and never touches \<open>c_cflag\<close>. What holds instead: whenever \<open>enableRawMode\<close>
  returns, the CS8 bits of the applied control flags are those of the snapshot.
\<close>

theorem enableRawMode_keeps_character_size:
  "enableRawMode K w = (Normal, w') \<Longrightarrow> c_cflag (tty w') AND CS8 K = c_cflag (tty w) AND CS8 K"
  by (simp add: enableRawMode_Normal raw_termios_frame)

text \<open>On Linux, from a line set to 7 data bits: the applied size is still CS7 (0x20), not CS8 (0x30).\<close>

theorem enableRawMode_keeps_character_size_witness:
  "enableRawMode linux (start linux cooked7 []) =
     (Normal, (start linux cooked7 [])\<lparr>tty := raw_termios linux cooked7, orig_termios := cooked7,
        handlers := [H_disableRawMode], trace := [Snapshot_stored, EnableRawMode_returned]\<rparr>)
   \<and> c_cflag (raw_termios linux cooked7) AND CS8 linux = 0x20
   \<and> CS8 linux = 0x30"
proof -
  note run = enableRawMode_no_faults [of linux cooked7]
  from enableRawMode_keeps_character_size [OF run]
  have "c_cflag (raw_termios linux cooked7) AND CS8 linux = 0x20"
    by (simp add: start_def cooked7_def cooked_def linux_def)
  moreover have "CS8 linux = 0x30"
    by (simp add: linux_def)
  ultimately show ?thesis
    using run by simp
qed

text \<open>
  C10. Whenever \<open>enableRawMode\<close> returns, the configuration it applied to the device
  differs from the snapshot it stored only in the input flags, the local flags and the
  control characters VMIN and VTIME: the output flags, the control flags, the line
  discipline and both speeds are those of the snapshot, and the control characters are
  the snapshot's with VMIN set to 0 and VTIME set to 1. The snapshot is the configuration
  the device had before.
\<close>

theorem enableRawMode_frame:
  "enableRawMode K w = (Normal, w') \<Longrightarrow>
     c_oflag (tty w') = c_oflag (orig_termios w') \<and>
     c_cflag (tty w') = c_cflag (orig_termios w') \<and>
     c_line (tty w') = c_line (orig_termios w') \<and>
     c_ispeed (tty w') = c_ispeed (orig_termios w') \<and>
     c_ospeed (tty w') = c_ospeed (orig_termios w') \<and>
     c_cc (tty w') = (c_cc (orig_termios w'))[VMIN K := 0, VTIME K := 1] \<and>
     orig_termios w' = tty w"
  by (simp add: enableRawMode_Normal raw_termios_frame)

theorem enableRawMode_frame_witness:
  "enableRawMode linux (start linux cooked []) =
     (Normal, (start linux cooked [])\<lparr>tty := raw_termios linux cooked, orig_termios := cooked,
        handlers := [H_disableRawMode], trace := [Snapshot_stored, EnableRawMode_returned]\<rparr>)
   \<and> c_oflag (raw_termios linux cooked) = 0x5
   \<and> c_cflag (raw_termios linux cooked) = 0xBF
   \<and> c_cc (raw_termios linux cooked) =
        [3, 28, 127, 21, 4, 1, 0, 0, 17, 19, 26, 0, 18, 15, 23, 22,
         0, 0, 0, 0, 0, 0, 0, 0, 0, 0, 0, 0, 0, 0, 0, 0]"
proof -
  note run = enableRawMode_no_faults [of linux cooked]
  from enableRawMode_frame [OF run]
  have "c_oflag (raw_termios linux cooked) = 0x5 \<and> c_cflag (raw_termios linux cooked) = 0xBF
      \<and> c_cc (raw_termios linux cooked) =
        [3, 28, 127, 21, 4, 1, 0, 0, 17, 19, 26, 0, 18, 15, 23, 22,
         0, 0, 0, 0, 0, 0, 0, 0, 0, 0, 0, 0, 0, 0, 0, 0]"
    by (simp add: start_def cooked_def linux_def)
  then show ?thesis
    using run by simp
qed

section \<open>The read loop\<close>

text \<open>
  C2, as the claim states it, fails: a read that times out with zero bytes is not a
  silent pass. On Linux, from the first state of a process, the pass changes standard output.
\<close>

theorem timeout_prints_counterexample:
  "stdout (snd (iteration linux Nothing (start linux cooked []))) \<noteq> stdout (start linux cooked [])"
  by (simp add: iteration_def read1_def print_key_NUL start_def)

text \<open>
  C2, amended. In a pass of the loop whose read produces zero bytes, \<open>c\<close> keeps the value 0
  it was initialised with, which is a control byte: the line \<open>0\<close>, carriage return, line
  feed is printed, nothing else of the state changes, and the loop runs again. The pass
  is not treated as an error.
\<close>

theorem iteration_Nothing:
  "iteration K Nothing w = (Normal, w\<lparr>stdout := stdout w @ CHR ''0'' # CRLF\<rparr>)"
  by (simp add: iteration_def read1_def print_key_NUL)

text \<open>
  C3, as the claim states it, fails: on Linux a read interrupted by a signal (errno EINTR)
  ends the process through \<open>die\<close>, with status 1 and the message of \<^verbatim>\<open>perror("read")\<close>.
\<close>

theorem EINTR_fatal_counterexample:
  "main linux [Failed EINTR_linux] (start linux cooked []) =
     (Some 1, [], (start linux cooked [])\<lparr>orig_termios := cooked, errno := EINTR_linux,
        stderr := [(''read'', EINTR_linux)],
        trace := [Snapshot_stored, EnableRawMode_returned, DisableRawMode_called]\<rparr>)"
  by (simp add: eval_defs linux_def EINTR_linux_def)

text \<open>
  C3, amended. A read that fails with errno EAGAIN (it would block) is not fatal: the
  pass prints the line of the byte 0 and the loop runs again. A read that fails with any
  other errno, the one of an interrupted read included, takes the fatal path: \<open>die\<close>
  reports \<open>read\<close> and the process exits with status 1.
\<close>

theorem iteration_Failed:
  "iteration K (Failed e) w =
     (if e = EAGAIN K then (Normal, w\<lparr>errno := e, stdout := stdout w @ CHR ''0'' # CRLF\<rparr>)
      else (Exit 1, w\<lparr>errno := e, stderr := stderr w @ [(''read'', e)]\<rparr>))"
  by (simp add: iteration_def read1_def print_key_NUL die_def)

theorem iteration_Failed_witness:
  "iteration linux (Failed 11) (start linux cooked []) =
     (Normal, (start linux cooked [])\<lparr>errno := 11, stdout := CHR ''0'' # CRLF\<rparr>)
   \<and> iteration linux (Failed EINTR_linux) (start linux cooked []) =
     (Exit 1, (start linux cooked [])\<lparr>errno := EINTR_linux, stderr := [(''read'', EINTR_linux)]\<rparr>)"
  using iteration_Failed [of linux 11 "start linux cooked []"]
    iteration_Failed [of linux EINTR_linux "start linux cooked []"]
  by (simp add: linux_def EINTR_linux_def start_def)




text \<open>
  C8. When every terminal call succeeds and the reads deliver \<open>a\<close>, \<open>b\<close>, \<open>q\<close>, the process
  prints the line of \<open>a\<close>, then the line of \<open>b\<close>, then, as part of processing \<open>q\<close>, the
  line of \<open>q\<close>; it leaves the loop without another read (whatever would come next stays
  unread), restores the terminal and exits with status 0, with nothing on standard error.
\<close>

theorem main_a_b_q:
  "main K (Got CHR ''a'' # Got CHR ''b'' # Got CHR ''q'' # rest) (start K t []) =
     (Some 0, rest,
      (start K t [])\<lparr>orig_termios := t,
         stdout := ''97 ('a')'' @ CRLF @ ''98 ('b')'' @ CRLF @ ''113 ('q')'' @ CRLF,
         trace := [Snapshot_stored, EnableRawMode_returned, DisableRawMode_called]\<rparr>)"
  by (simp add: eval_defs)

section \<open>Restoring\<close>

text \<open>
  C7. Restoring twice in a row leaves the device in the configuration that restoring once
  leaves it in, and no call of \<open>disableRawMode\<close> changes the stored snapshot. This holds
  whether the calls of \<^verbatim>\<open>tcsetattr\<close> succeed or fail.
\<close>

theorem restore_twice_same_device:
  "tty (snd (restore_twice w)) = tty (snd (disableRawMode w)) \<and>
   orig_termios (snd (disableRawMode w)) = orig_termios w \<and>
   orig_termios (snd (restore_twice w)) = orig_termios w"
  by (simp add: restore_twice_def disableRawMode_def tcsetattr_def die_def Let_def
      split: list.splits option.splits)

lemma disableRawMode_Normal:
  "disableRawMode w = (Normal, w') \<Longrightarrow> tty w' = orig_termios w \<and> orig_termios w' = orig_termios w"
  by (auto simp: disableRawMode_def tcsetattr_def die_def Let_def split: list.splits option.splits)

lemma no_reentry_tail: "no_reentry (p # ps) \<Longrightarrow> no_reentry ps"
  by (cases "(p # ps)" rule: no_reentry.cases) (auto elim: no_reentry.elims)

lemma no_reentry_after_Enter: "no_reentry (Enter # ps) \<Longrightarrow> ps = [] \<or> hd ps = Restore"
  by (cases ps; cases "hd ps"; auto)

text \<open>
  The state of the device along such a sequence: \<open>m\<close> says whether raw mode is on. The
  snapshot stays \<open>t0\<close>, and the device is \<open>t0\<close> or its raw version.
\<close>

lemma run_ops_invariant:
  assumes "run_ops K ps w = (Normal, w')" and "no_reentry ps"
    and "orig_termios w = t0" and "tty w = (if m then raw_termios K t0 else t0)"
    and "m \<Longrightarrow> ps = [] \<or> hd ps = Restore"
  shows "orig_termios w' = t0 \<and>
         tty w' = (if (if ps = [] then m else last ps = Enter) then raw_termios K t0 else t0)"
  using assms
proof (induction ps arbitrary: w m)
  case Nil
  then show ?case by simp
next
  case (Cons p ps)
  from Cons.prems(1) obtain w1 where step: "run_op K p w = (Normal, w1)"
    and rest: "run_ops K ps w1 = (Normal, w')"
    by (auto split: prod.splits ctl.splits)
  from Cons.prems(2) have nr: "no_reentry ps" by (rule no_reentry_tail)
  show ?case
  proof (cases p)
    case Enter
    with Cons.prems(5) have "\<not> m" by auto
    with Cons.prems(4) have t: "tty w = t0" by simp
    from step Enter have e: "enableRawMode K w = (Normal, w1)" by (simp add: run_op_def)
    from enableRawMode_Normal [OF e] t
    have w1: "orig_termios w1 = t0" "tty w1 = (if True then raw_termios K t0 else t0)" by simp_all
    from Cons.prems(2) Enter have "ps = [] \<or> hd ps = Restore"
      by (simp add: no_reentry_after_Enter)
    from Cons.IH [OF rest nr w1] this Enter show ?thesis by simp
  next
    case Restore
    from step Restore have d: "disableRawMode w = (Normal, w1)" by (simp add: run_op_def)
    from disableRawMode_Normal [OF d] Cons.prems(3)
    have w1: "orig_termios w1 = t0" "tty w1 = (if False then raw_termios K t0 else t0)" by simp_all
    from Cons.IH [OF rest nr w1] Restore show ?thesis by simp
  qed
qed

text \<open>
  C6, as the claim states it, fails: \<open>enableRawMode\<close> stores a new snapshot at every call
  (line 41), so entering twice and then restoring, with every call succeeding, leaves
  the device in raw mode. On Linux, from the usual terminal settings, the local flags
  end as 0xA30 where they were 0x8A3B.
\<close>

theorem reentry_breaks_fidelity_counterexample:
  "fst (run_ops linux [Enter, Enter, Restore] (start linux cooked [])) = Normal
   \<and> tty (snd (run_ops linux [Enter, Enter, Restore] (start linux cooked []))) \<noteq> tty (start linux cooked [])
   \<and> c_lflag (tty (snd (run_ops linux [Enter, Enter, Restore] (start linux cooked [])))) = 0xA30
   \<and> c_lflag (tty (start linux cooked [])) = 0x8A3B"
  by (simp add: run_op_def enableRawMode_def disableRawMode_def tcgetattr_def tcsetattr_def
      atexit_def start_def raw_termios_def linux_def cooked_def Let_def)

text \<open>
  C6, amended. For every sequence of entering raw mode and restoring that begins with an
  entry, ends with a restore and never enters raw mode twice with no restore in between
  (any number of rounds of entering and then restoring is such a sequence), and in which
  every call returns: the configuration of the device after the sequence equals the
  configuration it had before the first entry, which is the snapshot that entry stored;
  the stored snapshot has that value too.
\<close>

theorem restore_fidelity_no_reentry:
  assumes "run_ops K (Enter # ps) w = (Normal, w')"
    and "no_reentry (Enter # ps)"
    and "last (Enter # ps) = Restore"
  shows "tty w' = tty w \<and> orig_termios w' = tty w"
proof -
  from assms(1) obtain w1 where e: "enableRawMode K w = (Normal, w1)"
    and rest: "run_ops K ps w1 = (Normal, w')"
    by (auto simp: run_op_def split: prod.splits ctl.splits)
  from enableRawMode_Normal [OF e]
  have w1: "orig_termios w1 = tty w" "tty w1 = (if True then raw_termios K (tty w) else tty w)"
    by simp_all
  from assms(3) have ne: "ps \<noteq> []" and l: "last ps = Restore"
    by (auto split: if_splits)
  from run_ops_invariant [OF rest no_reentry_tail [OF assms(2)] w1]
    no_reentry_after_Enter [OF assms(2)] ne l
  show ?thesis by simp
qed

text \<open>Two rounds on Linux, from the usual terminal settings.\<close>

theorem restore_fidelity_no_reentry_witness:
  "run_ops linux [Enter, Restore, Enter, Restore] (start linux cooked []) =
     (Normal, (start linux cooked [])\<lparr>orig_termios := cooked,
        handlers := [H_disableRawMode, H_disableRawMode],
        trace := [Snapshot_stored, EnableRawMode_returned, DisableRawMode_called,
                  Snapshot_stored, EnableRawMode_returned, DisableRawMode_called]\<rparr>)
   \<and> no_reentry [Enter, Restore, Enter, Restore]
   \<and> last [Enter, Restore, Enter, Restore] = Restore
   \<and> tty (start linux cooked []) = cooked"
proof -
  have run: "run_ops linux [Enter, Restore, Enter, Restore] (start linux cooked []) =
     (Normal, (start linux cooked [])\<lparr>orig_termios := cooked,
        handlers := [H_disableRawMode, H_disableRawMode],
        trace := [Snapshot_stored, EnableRawMode_returned, DisableRawMode_called,
                  Snapshot_stored, EnableRawMode_returned, DisableRawMode_called]\<rparr>)"
    by (simp add: run_op_def enableRawMode_def disableRawMode_def tcgetattr_def
      tcsetattr_def atexit_def start_def Let_def)
  have nr: "no_reentry [Enter, Restore, Enter, Restore]" by simp
  have la: "last [Enter, Restore, Enter, Restore] = Restore" by simp
  from restore_fidelity_no_reentry [OF run nr la] show ?thesis
    using run by (simp add: start_def)
qed

text \<open>With no failing call, every sequence returns: the theorem above is not empty.\<close>

lemma run_op_no_faults:
  "faults w = [] \<Longrightarrow> \<exists>w'. run_op K p w = (Normal, w') \<and> faults w' = []"
  by (cases p) (simp_all add: run_op_def enableRawMode_def disableRawMode_def tcgetattr_def
      tcsetattr_def atexit_def Let_def)

lemma run_ops_no_faults:
  "faults w = [] \<Longrightarrow> \<exists>w'. run_ops K ps w = (Normal, w') \<and> faults w' = []"
proof (induction ps arbitrary: w)
  case Nil
  then show ?case by simp
next
  case (Cons p ps)
  from run_op_no_faults [OF Cons.prems, of K p] obtain w1
    where "run_op K p w = (Normal, w1)" and "faults w1 = []" by blast
  with Cons.IH [of w1] show ?case by simp
qed

section \<open>The life of the process\<close>

text \<open>The loop touches neither the device, nor the snapshot, nor the exit handlers.\<close>

lemma iteration_frame:
  "iteration K r w = (x, w') \<Longrightarrow>
     trace w' = trace w \<and> handlers w' = handlers w \<and> tty w' = tty w \<and>
     orig_termios w' = orig_termios w \<and> faults w' = faults w"
  by (auto simp: iteration_def read1_def die_def Let_def split: read_ev.splits if_splits)

lemma loop_frame:
  "loop K inp w = (x, rest, w') \<Longrightarrow>
     trace w' = trace w \<and> handlers w' = handlers w \<and> tty w' = tty w \<and>
     orig_termios w' = orig_termios w \<and> faults w' = faults w"
proof (induction inp arbitrary: w)
  case Nil
  then show ?case by simp
next
  case (Cons r rs)
  obtain y w1 where it: "iteration K r w = (y, w1)" by (cases "iteration K r w")
  note fr = iteration_frame [OF it]
  show ?case
  proof (cases y)
    case Normal
    with it Cons.prems have "loop K rs w1 = (x, rest, w')" by simp
    from Cons.IH [OF this] fr show ?thesis by simp
  next
    case Break
    with it Cons.prems have "w' = w1" by simp
    with fr show ?thesis by simp
  next
    case (Exit n)
    with it Cons.prems have "w' = w1" by simp
    with fr show ?thesis by simp
  qed
qed

lemma disableRawMode_trace:
  "disableRawMode w = (x, w') \<Longrightarrow>
     trace w' = trace w @ [DisableRawMode_called] \<and> handlers w' = handlers w"
  by (auto simp: disableRawMode_def tcsetattr_def die_def Let_def split: list.splits option.splits)

lemma exit_no_handler: "handlers w = [] \<Longrightarrow> exit st w = (st, w)"
  by (simp add: exit_def)

lemma exit_one_handler:
  assumes "handlers w = [H_disableRawMode]" and "exit st w = (st', w')"
  shows "trace w' = trace w @ [DisableRawMode_called]"
proof -
  obtain y w1 where d: "disableRawMode (w\<lparr>handlers := []\<rparr>) = (y, w1)"
    by (cases "disableRawMode (w\<lparr>handlers := []\<rparr>)")
  with assms have "w' = w1"
    by (cases y) (simp_all add: exit_def call_handler_def)
  with disableRawMode_trace [OF d] show ?thesis by simp
qed

lemma enableRawMode_result:
  "enableRawMode K w = (x, w') \<Longrightarrow>
     (if fails (faults w) 0 then x = Exit 1 \<and> trace w' = trace w \<and> handlers w' = handlers w
      else if fails (faults w) 1
        then x = Exit 1 \<and> trace w' = trace w @ [Snapshot_stored] \<and>
             handlers w' = H_disableRawMode # handlers w
        else x = Normal \<and> trace w' = trace w @ [Snapshot_stored, EnableRawMode_returned] \<and>
             handlers w' = H_disableRawMode # handlers w)"
  by (auto simp: enableRawMode_def tcgetattr_def tcsetattr_def atexit_def die_def fails_def Let_def
      split: list.splits option.splits)

lemma main_trace:
  assumes "main K inp (start K t fs) = (st, rest, w')"
  shows "trace w' =
     (if fails fs 0 then []
      else Snapshot_stored # (if fails fs 1 then [] else [EnableRawMode_returned]) @
           (if st = None then [] else [DisableRawMode_called]))"
    and "fails fs 0 \<or> fails fs 1 \<Longrightarrow> st = Some 1"
proof -
  let ?w = "start K t fs"
  obtain x w1 where e: "enableRawMode K ?w = (x, w1)" by (cases "enableRawMode K ?w")
  have f: "faults ?w = fs" "trace ?w = []" "handlers ?w = []" by (simp_all add: start_def)
  note er = enableRawMode_result [OF e, unfolded f]
  have "trace w' =
     (if fails fs 0 then []
      else Snapshot_stored # (if fails fs 1 then [] else [EnableRawMode_returned]) @
           (if st = None then [] else [DisableRawMode_called]))
     \<and> (fails fs 0 \<or> fails fs 1 \<longrightarrow> st = Some 1)"
  proof (cases "fails fs 0")
    case True
    with er have x: "x = Exit 1" and w1: "trace w1 = []" "handlers w1 = []" by simp_all
    from assms e x exit_no_handler [OF w1(2)] have "st = Some 1" "w' = w1"
      by (simp_all add: main_def)
    with True w1 show ?thesis by simp
  next
    case f0: False
    show ?thesis
    proof (cases "fails fs 1")
      case True
      with f0 er have x: "x = Exit 1" and w1: "trace w1 = [Snapshot_stored]"
        "handlers w1 = [H_disableRawMode]" by simp_all
      obtain s2 w2 where ex: "exit 1 w1 = (s2, w2)" by (cases "exit 1 w1")
      from assms e x ex have "st = Some s2" "w' = w2" by (simp_all add: main_def)
      moreover from exit_one_handler [OF w1(2) ex] w1 have "trace w2 = [Snapshot_stored, DisableRawMode_called]" by simp
      moreover have "s2 = 1" using ex w1(2)
        by (auto simp: exit_def call_handler_def disableRawMode_def tcsetattr_def die_def Let_def
            split: list.splits option.splits)
      ultimately show ?thesis using f0 True by simp
    next
      case f1: False
      with f0 er have x: "x = Normal" and w1: "trace w1 = [Snapshot_stored, EnableRawMode_returned]"
        "handlers w1 = [H_disableRawMode]" by simp_all
      obtain y r2 w2 where l: "loop K inp w1 = (y, r2, w2)" by (cases "loop K inp w1")
      from loop_frame [OF l] w1 have w2: "trace w2 = [Snapshot_stored, EnableRawMode_returned]"
        "handlers w2 = [H_disableRawMode]" by simp_all
      show ?thesis
      proof (cases y)
        case None
        with assms e x l have "st = None" "w' = w2" by (simp_all add: main_def)
        with w2 f0 f1 show ?thesis by simp
      next
        case (Some c)
        obtain s3 w3 where ex: "exit (case c of Exit n \<Rightarrow> n | _ \<Rightarrow> 0) w2 = (s3, w3)"
          by (cases "exit (case c of Exit n \<Rightarrow> n | _ \<Rightarrow> 0) w2")
        with assms e x l Some have "st = Some s3" "w' = w3"
          by (cases c; simp add: main_def)+
        with exit_one_handler [OF w2(2) ex] w2 f0 f1 show ?thesis by simp
      qed
    qed
  qed
  then show "trace w' =
     (if fails fs 0 then []
      else Snapshot_stored # (if fails fs 1 then [] else [EnableRawMode_returned]) @
           (if st = None then [] else [DisableRawMode_called]))"
    and "fails fs 0 \<or> fails fs 1 \<Longrightarrow> st = Some 1" by simp_all
qed

text \<open>
  The run of the program itself: when the process ends with status 0, the device has the
  configuration it had when the process started. A fatal path always ends with status 1.
\<close>

lemma iteration_Exit: "iteration K r w = (Exit n, w') \<Longrightarrow> n = 1"
  by (auto simp: iteration_def read1_def die_def Let_def split: read_ev.splits if_splits)

lemma loop_Exit: "loop K inp w = (Some (Exit n), rest, w') \<Longrightarrow> n = 1"
proof (induction inp arbitrary: w)
  case Nil
  then show ?case by simp
next
  case (Cons r rs)
  obtain y w1 where it: "iteration K r w = (y, w1)" by (cases "iteration K r w")
  show ?case
  proof (cases y)
    case Normal
    with it Cons.prems have "loop K rs w1 = (Some (Exit n), rest, w')" by simp
    then show ?thesis by (rule Cons.IH)
  next
    case Break
    with it Cons.prems show ?thesis by simp
  next
    case (Exit m)
    with it Cons.prems have "m = n" by simp
    with it Exit iteration_Exit [of K r w n w1] show ?thesis by simp
  qed
qed

lemma exit_one_handler_status:
  assumes "handlers w = [H_disableRawMode]" and "exit st w = (st', w')"
  shows "(st' = st \<and> tty w' = orig_termios w) \<or> st' = 1"
  using assms
  by (auto simp: exit_def call_handler_def disableRawMode_def tcsetattr_def die_def Let_def
      split: list.splits option.splits)

lemma main_exit_0_restores:
  assumes "main K inp (start K t fs) = (Some 0, rest, w')"
  shows "tty w' = t"
proof -
  let ?w = "start K t fs"
  obtain x w1 where e: "enableRawMode K ?w = (x, w1)" by (cases "enableRawMode K ?w")
  have f: "faults ?w = fs" "trace ?w = []" "handlers ?w = []" "tty ?w = t" by (simp_all add: start_def)
  note er = enableRawMode_result [OF e, unfolded f]
  from main_trace(2) [OF assms] have ok: "\<not> fails fs 0" "\<not> fails fs 1" by auto
  with er have x: "x = Normal" and h1: "handlers w1 = [H_disableRawMode]" by simp_all
  from enableRawMode_Normal(2) [OF e [unfolded x]] f have o1: "orig_termios w1 = t" by simp
  obtain y r2 w2 where l: "loop K inp w1 = (y, r2, w2)" by (cases "loop K inp w1")
  from loop_frame [OF l] h1 o1 have w2: "handlers w2 = [H_disableRawMode]" "orig_termios w2 = t"
    by simp_all
  show ?thesis
  proof (cases y)
    case None
    with assms e x l show ?thesis by (simp add: main_def)
  next
    case (Some c)
    show ?thesis
    proof (cases c)
      case (Exit n)
      with Some l have "n = 1" using loop_Exit by blast
      obtain s3 w3 where ex: "exit 1 w2 = (s3, w3)" by (cases "exit 1 w2")
      with assms e x l Some Exit \<open>n = 1\<close> have "s3 = 0" by (simp add: main_def)
      with exit_one_handler_status [OF w2(1) ex] show ?thesis by simp
    next
      case Normal
      obtain s3 w3 where ex: "exit 0 w2 = (s3, w3)" by (cases "exit 0 w2")
      with assms e x l Some Normal have "s3 = 0" "w' = w3" by (simp_all add: main_def)
      with exit_one_handler_status [OF w2(1) ex] w2 show ?thesis by simp
    next
      case Break
      obtain s3 w3 where ex: "exit 0 w2 = (s3, w3)" by (cases "exit 0 w2")
      with assms e x l Some Break have "s3 = 0" "w' = w3" by (simp_all add: main_def)
      with exit_one_handler_status [OF w2(1) ex] w2 show ?thesis by simp
    qed
  qed
qed

text \<open>
  C4, as the claim states it, fails. On Linux, when the query succeeds and applying the
  raw configuration fails (errno 5, EIO), \<open>die\<close> exits, and the handler registered at
  line 50 runs \<open>disableRawMode\<close> although \<open>enableRawMode\<close> never returned.
\<close>

theorem restore_without_enter_counterexample:
  "trace (snd (snd (main linux [] (start linux cooked [None, Some 5])))) =
     [Snapshot_stored, DisableRawMode_called]
   \<and> runs_before DisableRawMode_called EnableRawMode_returned
       (trace (snd (snd (main linux [] (start linux cooked [None, Some 5])))))"
  by (simp add: eval_defs runs_before_def)

text \<open>
  C4, amended. \<open>disableRawMode\<close> never runs before \<open>enableRawMode\<close> has stored the
  snapshot (and registered it, the next statement). It runs exactly once on every path on
  which the process ends after the initial query succeeded, the fatal path of a failed
  apply of the raw configuration included; it runs not at all while the process is in
  the loop, and not at all when the initial query fails.
\<close>

theorem restore_once_after_snapshot:
  "main K inp (start K t fs) = (st, rest, w') \<Longrightarrow>
     \<not> runs_before DisableRawMode_called Snapshot_stored (trace w') \<and>
     count_list (trace w') DisableRawMode_called = (if st = None \<or> fails fs 0 then 0 else 1)"
  by (simp add: main_trace(1) runs_before_def)

theorem restore_once_after_snapshot_witness:
  "main linux [] (start linux cooked [None, Some 5]) =
     (Some 1, [], (start linux cooked [])\<lparr>orig_termios := cooked, errno := 5,
        stderr := [(''tcsetattr'', 5)], trace := [Snapshot_stored, DisableRawMode_called]\<rparr>)
   \<and> \<not> runs_before DisableRawMode_called Snapshot_stored [Snapshot_stored, DisableRawMode_called]
   \<and> count_list [Snapshot_stored, DisableRawMode_called] DisableRawMode_called = 1"
proof -
  have run: "main linux [] (start linux cooked [None, Some 5]) =
     (Some 1, [], (start linux cooked [])\<lparr>orig_termios := cooked, errno := 5,
        stderr := [(''tcsetattr'', 5)], trace := [Snapshot_stored, DisableRawMode_called]\<rparr>)"
    by (simp add: eval_defs)
  from restore_once_after_snapshot [OF run] show ?thesis
    using run by (simp add: start_def fails_def)
qed

end
